theory Spec2Isabelle
  imports Main "HOL-Library.Sublist"
begin

section \<open>Go library primitives the program calls\<close>

text \<open>
  Go strings are byte sequences, so a Go \<open>string\<close> is a \<^typ>\<open>string\<close> (a list of
  8-bit characters) here. The functions of this section are the standard-library calls of
  \<open>pkg/utils/utils.go\<close>, \<open>pkg/reader/reader.go\<close> and \<open>pkg/recorder/recorder.go\<close>:
  \<open>strings.HasPrefix\<close>, \<open>strings.TrimPrefix\<close>, \<open>strings.Split\<close> with a one-byte
  separator, \<open>strings.Join\<close> and \<open>strconv.Atoi\<close> (the Dockerfile of the repository
  builds for amd64, where \<open>int\<close> has 64 bits).
\<close>

definition HasPrefix :: "string \<Rightarrow> string \<Rightarrow> bool" where
  "HasPrefix s p = (take (length p) s = p)"

definition TrimPrefix :: "string \<Rightarrow> string \<Rightarrow> string" where
  "TrimPrefix s p = (if HasPrefix s p then drop (length p) s else s)"

fun Split :: "string \<Rightarrow> char \<Rightarrow> string list" where
  "Split [] sep = [[]]"
| "Split (c # cs) sep =
     (if c = sep then [] # Split cs sep
      else (case Split cs sep of [] \<Rightarrow> [[c]] | w # ws \<Rightarrow> (c # w) # ws))"

fun Join :: "string list \<Rightarrow> string \<Rightarrow> string" where
  "Join [] sep = []"
| "Join [x] sep = x"
| "Join (x # y # ys) sep = x @ sep @ Join (y # ys) sep"

definition isDigit :: "char \<Rightarrow> bool" where
  "isDigit c = (c \<in> set ''0123456789'')"

definition digitVal :: "char \<Rightarrow> int" where
  "digitVal c = of_char c - 48"

definition decimal :: "string \<Rightarrow> int" where
  "decimal ds = foldl (\<lambda>n c. 10 * n + digitVal c) 0 ds"

datatype num_error = NumError

definition maxInt :: int where
  "maxInt = 2 ^ 63 - 1"

definition minInt :: int where
  "minInt = - (2 ^ 63)"

text \<open>
  \<open>strconv.Atoi\<close> accepts an optional sign followed by one or more ASCII digits and
  nothing else, denoting a number that fits the 64-bit \<open>int\<close>. Every other string makes
  it fail with a \<open>*strconv.NumError\<close>; whether that error reports bad syntax or a number
  out of range is not told apart here, the program does not look at it.
\<close>

definition Atoi :: "string \<Rightarrow> num_error + int" where
  "Atoi s =
     (let (neg, ds) =
            (case s of
               [] \<Rightarrow> (False, [])
             | c # cs \<Rightarrow>
                 if c = CHR ''-'' then (True, cs)
                 else if c = CHR ''+'' then (False, cs)
                 else (False, s))
      in if ds = [] \<or> \<not> list_all isDigit ds then Inl NumError
         else
           let n = (if neg then - decimal ds else decimal ds)
           in if n < minInt \<or> maxInt < n then Inl NumError else Inr n)"

section \<open>The record classifier: \<open>ParseEtcdObject\<close> of \<open>pkg/utils/utils.go\<close>\<close>

definition etcdObjectValueKmsEncryptedPrefix :: string where
  "etcdObjectValueKmsEncryptedPrefix = ''k8s:enc:kms:''"

text \<open>
  The three \<open>fmt.Errorf\<close> of \<open>ParseEtcdObject\<close>: \<open>invalid key format: <k>\<close>,
  \<open>invalid encrypted value format: <v>\<close> and \<open>failed to convert seq to int: <err>\<close>.
\<close>

datatype parse_error =
    InvalidKeyFormat string
  | InvalidEncryptedValueFormat string
  | FailedToConvertSeq num_error

text \<open>
  The function returns the Go tuple \<open>(encrypted, secret, seq, err)\<close>; \<open>err\<close> is \<open>None\<close>
  for Go's \<open>nil\<close>. The other three components are returned on the error paths too.
\<close>

definition ParseEtcdObject ::
  "string \<Rightarrow> string \<Rightarrow> string \<Rightarrow> bool \<times> string \<times> int \<times> parse_error option" where
  "ParseEtcdObject k v kmsProviderName =
     (let encrypted = HasPrefix v etcdObjectValueKmsEncryptedPrefix;
          keyParts = Split k CHR ''/''
      in if length keyParts < 5 then (encrypted, [], 0, Some (InvalidKeyFormat k))
         else
           let secret = keyParts ! 3 @ ''/'' @ keyParts ! 4
           in if encrypted then
                (let valueParts = Split v CHR '':''
                 in if length valueParts < 6
                    then (encrypted, secret, 0, Some (InvalidEncryptedValueFormat v))
                    else
                      (case Atoi (TrimPrefix (valueParts ! 4) kmsProviderName) of
                         Inl err \<Rightarrow> (encrypted, secret, 0, Some (FailedToConvertSeq err))
                       | Inr seqInt \<Rightarrow> (encrypted, secret, seqInt, None)))
              else (encrypted, secret, 0, None))"

definition encryptedOf :: "bool \<times> string \<times> int \<times> parse_error option \<Rightarrow> bool" where
  "encryptedOf r = fst r"

definition secretOf :: "bool \<times> string \<times> int \<times> parse_error option \<Rightarrow> string" where
  "secretOf r = fst (snd r)"

definition seqOf :: "bool \<times> string \<times> int \<times> parse_error option \<Rightarrow> int" where
  "seqOf r = fst (snd (snd r))"

definition errOf :: "bool \<times> string \<times> int \<times> parse_error option \<Rightarrow> parse_error option" where
  "errOf r = snd (snd (snd r))"

section \<open>The batch analyzer: \<open>analyzeSecretEncryption\<close> of \<open>pkg/reader/reader.go\<close>\<close>

record EncryptionAnalysisResult =
  EncryptedSecrets :: "string list"
  UnencryptedSecrets :: "string list"
  AllSecretsUseLatestProvider :: bool

text \<open>
  The body of the \<open>for _, kv := range kvs\<close> loop, on the result built so far; a record
  is a pair of key and value. \<open>continue\<close> on a parse error leaves the result as it is.
\<close>

definition analyzeStep ::
  "string \<Rightarrow> int \<Rightarrow> EncryptionAnalysisResult \<Rightarrow> string \<times> string \<Rightarrow> EncryptionAnalysisResult" where
  "analyzeStep kmsProviderName latestProviderSeq result kv =
     (case ParseEtcdObject (fst kv) (snd kv) kmsProviderName of
        (encrypted, parsedSecret, providerSeq, Some err) \<Rightarrow> result
      | (encrypted, parsedSecret, providerSeq, None) \<Rightarrow>
          (let result1 =
                 (if providerSeq \<noteq> latestProviderSeq
                  then result\<lparr>AllSecretsUseLatestProvider := False\<rparr> else result)
           in if encrypted
              then result1\<lparr>EncryptedSecrets := EncryptedSecrets result1 @ [parsedSecret]\<rparr>
              else result1\<lparr>UnencryptedSecrets := UnencryptedSecrets result1 @ [parsedSecret]\<rparr>))"

fun analyzeLoop ::
  "string \<Rightarrow> int \<Rightarrow> EncryptionAnalysisResult \<Rightarrow> (string \<times> string) list \<Rightarrow> EncryptionAnalysisResult" where
  "analyzeLoop kmsProviderName latestProviderSeq result [] = result"
| "analyzeLoop kmsProviderName latestProviderSeq result (kv # kvs) =
     analyzeLoop kmsProviderName latestProviderSeq
       (analyzeStep kmsProviderName latestProviderSeq result kv) kvs"

definition analyzeSecretEncryption ::
  "string \<Rightarrow> (string \<times> string) list \<Rightarrow> int \<Rightarrow> EncryptionAnalysisResult" where
  "analyzeSecretEncryption kmsProviderName kvs latestProviderSeq =
     analyzeLoop kmsProviderName latestProviderSeq
       \<lparr>EncryptedSecrets = [], UnencryptedSecrets = [], AllSecretsUseLatestProvider = True\<rparr> kvs"

section \<open>The provider-generation resolver: \<open>getLatestProviderSeq\<close> of \<open>pkg/reader/reader.go\<close>\<close>

text \<open>
  The two pointer fields of \<open>Provider\<close> are \<open>None\<close> when \<open>nil\<close>. Two structs of the
  source share the field names \<open>APIVersion\<close> and \<open>Resources\<close>; those of \<open>KMSProvider\<close>
  and \<open>Resource\<close> are \<open>KMSAPIVersion\<close> and \<open>ResourceNames\<close> here.
\<close>

record KMSProvider =
  KMSAPIVersion :: string
  Endpoint :: string
  Name :: string

record Provider =
  KMS :: "KMSProvider option"
  Identity :: "unit option"






fun FindStringSubmatch :: "string \<Rightarrow> string \<Rightarrow> string list" where
  "FindStringSubmatch lit [] = []"
| "FindStringSubmatch lit (c # cs) =
     (let ds = takeWhile isDigit (drop (length lit) (c # cs))
      in if HasPrefix (c # cs) lit \<and> ds \<noteq> [] then [lit @ ds, ds]
         else FindStringSubmatch lit cs)"








definition providerGeneration :: "string \<Rightarrow> Provider \<Rightarrow> int option" where
  "providerGeneration lit provider =
     (case KMS provider of
        None \<Rightarrow> None
      | Some kms \<Rightarrow>
          (case FindStringSubmatch lit (Name kms) of
             [whole, ds] \<Rightarrow> if decimal ds \<le> maxInt then Some (decimal ds) else None
           | _ \<Rightarrow> None))"




section \<open>The recorder: \<open>Record\<close> of \<open>pkg/recorder/recorder.go\<close>\<close>

definition kmsReporterConfigMapName :: string where
  "kmsReporterConfigMapName = ''kms-reporter''"

definition allSecretsPattern :: string where
  "allSecretsPattern = ''ALL_SECRETS''"

definition encryptedSecretsKey :: string where
  "encryptedSecretsKey = ''ENCRYPTED''"

definition unencryptedSecretsKey :: string where
  "unencryptedSecretsKey = ''UNENCRYPTED''"

definition encryptedByLatestProviderKey :: string where
  "encryptedByLatestProviderKey = ''ENCRYPTED_BY_LATEST_SEQ''"

definition formatSecretLists :: "string list \<Rightarrow> string list \<Rightarrow> string \<times> string" where
  "formatSecretLists encryptedSecrets unencryptedSecrets =
     (let hasEncrypted = (length encryptedSecrets > 0);
          hasUnencrypted = (length unencryptedSecrets > 0)
      in if hasEncrypted \<and> hasUnencrypted
         then (Join encryptedSecrets '','', Join unencryptedSecrets '','')
         else if \<not> hasEncrypted \<and> hasUnencrypted then ([], allSecretsPattern)
         else if hasEncrypted \<and> \<not> hasUnencrypted then (allSecretsPattern, [])
         else ([], []))"

text \<open>\<open>fmt.Sprintf("%t", b)\<close>.\<close>

definition formatBool :: "bool \<Rightarrow> string" where
  "formatBool b = (if b then ''true'' else ''false'')"

text \<open>
  A ConfigMap of the cluster: its \<open>Data\<close> is a Go map, \<open>None\<close> when the map is \<open>nil\<close>
  (a ConfigMap stored without data). The API calls are the environment of the recorder:
  what \<open>Get\<close> answers is an input, and so is whether \<open>Create\<close> or \<open>Update\<close> succeeds.
  On success the functions return the ConfigMap they have sent to the cluster, which is the
  stored report from then on.
\<close>

record ConfigMap =
  ObjectName :: string
  Namespace :: string
  Data :: "(string \<rightharpoonup> string) option"

datatype get_result =
    GetFound ConfigMap
  | GetNotFound
  | GetOtherError

datatype record_error =
    FailedToGet
  | FailedToCreate
  | FailedToUpdate
  | AssignmentToNilMap

definition createConfigMap ::
  "bool \<Rightarrow> string \<Rightarrow> string \<Rightarrow> string \<Rightarrow> bool \<Rightarrow> bool \<Rightarrow> record_error + ConfigMap" where
  "createConfigMap createSucceeds namespace encryptedValue unencryptedValue
       allSecretsEncrypted allSecretsUseLatestProvider =
     (let data = [encryptedSecretsKey \<mapsto> encryptedValue,
                  unencryptedSecretsKey \<mapsto> unencryptedValue];
          data1 = (if allSecretsEncrypted
                   then data(encryptedByLatestProviderKey \<mapsto> formatBool allSecretsUseLatestProvider)
                   else data);
          configMap = \<lparr>ObjectName = kmsReporterConfigMapName, Namespace = namespace,
                       Data = Some data1\<rparr>
      in if createSucceeds then Inr configMap else Inl FailedToCreate)"

text \<open>
  \<open>updateConfigMap\<close> assigns into \<open>configMap.Data\<close> first: on a \<open>nil\<close> map the
  assignment panics.
\<close>

definition updateConfigMap ::
  "bool \<Rightarrow> ConfigMap \<Rightarrow> string \<Rightarrow> string \<Rightarrow> bool \<Rightarrow> bool \<Rightarrow> record_error + ConfigMap" where
  "updateConfigMap updateSucceeds configMap encryptedValue unencryptedValue
       allSecretsEncrypted allSecretsUseLatestProvider =
     (case Data configMap of
        None \<Rightarrow> Inl AssignmentToNilMap
      | Some data \<Rightarrow>
          (let data1 = data(encryptedSecretsKey \<mapsto> encryptedValue);
               data2 = data1(unencryptedSecretsKey \<mapsto> unencryptedValue);
               data3 = (if allSecretsEncrypted
                        then data2(encryptedByLatestProviderKey \<mapsto>
                               formatBool allSecretsUseLatestProvider)
                        else data2(encryptedByLatestProviderKey := None))
           in if updateSucceeds then Inr (configMap\<lparr>Data := Some data3\<rparr>)
              else Inl FailedToUpdate))"

definition Record ::
  "get_result \<Rightarrow> bool \<Rightarrow> string \<Rightarrow> string list \<Rightarrow> string list \<Rightarrow> bool \<Rightarrow> record_error + ConfigMap" where
  "Record got writeSucceeds namespace encryptedSecrets unencryptedSecrets
       allSecretsUseLatestProvider =
     (let allSecretsEncrypted = (length unencryptedSecrets = 0);
          (encryptedValue, unencryptedValue) =
            formatSecretLists encryptedSecrets unencryptedSecrets
      in case got of
           GetOtherError \<Rightarrow> Inl FailedToGet
         | GetNotFound \<Rightarrow>
             createConfigMap writeSucceeds namespace encryptedValue unencryptedValue
               allSecretsEncrypted allSecretsUseLatestProvider
         | GetFound configMap \<Rightarrow>
             updateConfigMap writeSucceeds configMap encryptedValue unencryptedValue
               allSecretsEncrypted allSecretsUseLatestProvider)"

section \<open>Properties of \<open>strconv.Atoi\<close>\<close>









section \<open>Properties of the record classifier\<close>


lemma ParseEtcdObject_short_key:
  "length (Split k CHR ''/'') < 5 \<Longrightarrow>
     ParseEtcdObject k v p =
       (HasPrefix v etcdObjectValueKmsEncryptedPrefix, [], 0, Some (InvalidKeyFormat k))"
  by (simp add: ParseEtcdObject_def Let_def)

lemma secretOf_ParseEtcdObject:
  "5 \<le> length (Split k CHR ''/'') \<Longrightarrow>
     secretOf (ParseEtcdObject k v p) = Split k CHR ''/'' ! 3 @ ''/'' @ Split k CHR ''/'' ! 4"
  by (simp add: ParseEtcdObject_def secretOf_def Let_def split: sum.splits)



text \<open>
  Claim C5. Whatever the value is, a key that \<open>strings.Split\<close> cuts at \<open>/\<close> into at
  least five segments gives the identity made of the segments of index 3 and 4 joined by
  \<open>/\<close>; the segments after them are dropped. A key with fewer than five segments gives
  the error \<open>invalid key format\<close>.
\<close>

theorem classify_identity:
  "(5 \<le> length (Split k CHR ''/'') \<longrightarrow>
      secretOf (ParseEtcdObject k v p) = Join [Split k CHR ''/'' ! 3, Split k CHR ''/'' ! 4] ''/'')
   \<and> (length (Split k CHR ''/'') < 5 \<longrightarrow>
      errOf (ParseEtcdObject k v p) = Some (InvalidKeyFormat k))"
  by (simp add: secretOf_ParseEtcdObject ParseEtcdObject_short_key errOf_def)

theorem classify_identity_witness:
  "5 \<le> length (Split ''/registry/secrets/ns/a/b/c'' CHR ''/'')
   \<and> secretOf (ParseEtcdObject ''/registry/secrets/ns/a/b/c'' ''plain'' ''kmsprovider'') = ''ns/a''
   \<and> length (Split ''invalid-key'' CHR ''/'') < 5
   \<and> errOf (ParseEtcdObject ''invalid-key'' ''plain'' ''kmsprovider'')
       = Some (InvalidKeyFormat ''invalid-key'')"
proof -
  have long: "5 \<le> length (Split ''/registry/secrets/ns/a/b/c'' CHR ''/'')" by code_simp
  have short: "length (Split ''invalid-key'' CHR ''/'') < 5" by code_simp
  have parts: "Join [Split ''/registry/secrets/ns/a/b/c'' CHR ''/'' ! 3,
                     Split ''/registry/secrets/ns/a/b/c'' CHR ''/'' ! 4] ''/'' = ''ns/a''"
    by code_simp
  from classify_identity [of "''/registry/secrets/ns/a/b/c''" "''plain''" "''kmsprovider''"]
       classify_identity [of "''invalid-key''" "''plain''" "''kmsprovider''"]
       long short parts
  show ?thesis by simp
qed



text \<open>
  Claim C9. \<open>ParseEtcdObject\<close> returns partial results beside an error. The flag is
  the marker test on every path, the \<open>invalid key format\<close> error included (that error is
  returned exactly for keys of fewer than five segments). With either error that comes
  from the value, too few fields or a failed conversion, the secret returned is the
  identity already taken from the key.
\<close>

theorem ParseEtcdObject_partial_results:
  "encryptedOf (ParseEtcdObject k v p) = HasPrefix v etcdObjectValueKmsEncryptedPrefix
   \<and> (errOf (ParseEtcdObject k v p) = Some (InvalidKeyFormat k') \<longrightarrow>
        length (Split k CHR ''/'') < 5)
   \<and> ((errOf (ParseEtcdObject k v p) = Some (InvalidEncryptedValueFormat v')
        \<or> errOf (ParseEtcdObject k v p) = Some (FailedToConvertSeq e)) \<longrightarrow>
        secretOf (ParseEtcdObject k v p)
          = Split k CHR ''/'' ! 3 @ ''/'' @ Split k CHR ''/'' ! 4)"
  by (auto simp: ParseEtcdObject_def encryptedOf_def errOf_def secretOf_def Let_def
           split: sum.splits if_splits)

theorem ParseEtcdObject_partial_results_witness:
  "errOf (ParseEtcdObject ''/registry/secrets/default/mysecret'' ''k8s:enc:kms:v2:kmsprovider1''
            ''kmsprovider'') = Some (InvalidEncryptedValueFormat ''k8s:enc:kms:v2:kmsprovider1'')
   \<and> secretOf (ParseEtcdObject ''/registry/secrets/default/mysecret''
                 ''k8s:enc:kms:v2:kmsprovider1'' ''kmsprovider'') = ''default/mysecret''
   \<and> errOf (ParseEtcdObject ''invalid-key'' ''k8s:enc:kms:v2:kmsprovider1:x'' ''kmsprovider'')
       = Some (InvalidKeyFormat ''invalid-key'')
   \<and> encryptedOf (ParseEtcdObject ''invalid-key'' ''k8s:enc:kms:v2:kmsprovider1:x''
                    ''kmsprovider'') = True
   \<and> length (Split ''invalid-key'' CHR ''/'') < 5"
proof -
  have e1: "errOf (ParseEtcdObject ''/registry/secrets/default/mysecret''
              ''k8s:enc:kms:v2:kmsprovider1'' ''kmsprovider'')
            = Some (InvalidEncryptedValueFormat ''k8s:enc:kms:v2:kmsprovider1'')"
    by code_simp
  have e2: "errOf (ParseEtcdObject ''invalid-key'' ''k8s:enc:kms:v2:kmsprovider1:x''
              ''kmsprovider'') = Some (InvalidKeyFormat ''invalid-key'')"
    by code_simp
  have parts: "Split ''/registry/secrets/default/mysecret'' CHR ''/'' ! 3 @ ''/''
                 @ Split ''/registry/secrets/default/mysecret'' CHR ''/'' ! 4
               = ''default/mysecret''"
    by code_simp
  have marker: "HasPrefix ''k8s:enc:kms:v2:kmsprovider1:x'' etcdObjectValueKmsEncryptedPrefix"
    by code_simp
  from ParseEtcdObject_partial_results
         [of "''/registry/secrets/default/mysecret''" "''k8s:enc:kms:v2:kmsprovider1''"
             "''kmsprovider''" "''invalid-key''" "''k8s:enc:kms:v2:kmsprovider1''" NumError]
       ParseEtcdObject_partial_results
         [of "''invalid-key''" "''k8s:enc:kms:v2:kmsprovider1:x''" "''kmsprovider''"
             "''invalid-key''" "[]" NumError]
       e1 e2 parts marker
  show ?thesis by simp
qed




section \<open>Properties of the batch analyzer\<close>

lemma analyzeStep_error:
  "errOf (ParseEtcdObject (fst kv) (snd kv) p) \<noteq> None \<Longrightarrow> analyzeStep p latest r kv = r"
  by (auto simp: analyzeStep_def errOf_def split: prod.splits option.splits)

lemma analyzeStep_flag:
  "AllSecretsUseLatestProvider (analyzeStep p latest r kv) =
     (AllSecretsUseLatestProvider r \<and>
      (errOf (ParseEtcdObject (fst kv) (snd kv) p) = None \<longrightarrow>
         seqOf (ParseEtcdObject (fst kv) (snd kv) p) = latest))"
  by (auto simp: analyzeStep_def errOf_def seqOf_def Let_def split: prod.splits option.splits)

lemma analyzeLoop_flag:
  "AllSecretsUseLatestProvider (analyzeLoop p latest r kvs) =
     (AllSecretsUseLatestProvider r \<and>
      (\<forall>kv \<in> set kvs. errOf (ParseEtcdObject (fst kv) (snd kv) p) = None \<longrightarrow>
         seqOf (ParseEtcdObject (fst kv) (snd kv) p) = latest))"
proof (induction kvs arbitrary: r)
  case Nil
  show ?case by simp
next
  case (Cons kv kvs)
  show ?case by (simp add: Cons.IH analyzeStep_flag)
qed

lemma analyzeLoop_append:
  "analyzeLoop p latest r (xs @ ys) = analyzeLoop p latest (analyzeLoop p latest r xs) ys"
  by (induction xs arbitrary: r) simp_all

text \<open>
  Claim C1. The flag of the report is true exactly when every record that is classified
  without error has the expected sequence number. It starts true, a record that differs
  turns it false, and once false it stays false whatever records follow. The empty batch
  gives two empty lists and the flag true.
\<close>

theorem analyze_all_match_iff:
  "(AllSecretsUseLatestProvider (analyzeSecretEncryption p kvs latest) \<longleftrightarrow>
      (\<forall>kv \<in> set kvs. errOf (ParseEtcdObject (fst kv) (snd kv) p) = None \<longrightarrow>
         seqOf (ParseEtcdObject (fst kv) (snd kv) p) = latest))
   \<and> (\<not> AllSecretsUseLatestProvider (analyzeSecretEncryption p kvs latest) \<longrightarrow>
        \<not> AllSecretsUseLatestProvider (analyzeSecretEncryption p (kvs @ later) latest))
   \<and> analyzeSecretEncryption p [] latest =
        \<lparr>EncryptedSecrets = [], UnencryptedSecrets = [], AllSecretsUseLatestProvider = True\<rparr>"
  by (auto simp: analyzeSecretEncryption_def analyzeLoop_flag)

theorem analyze_all_match_iff_witness:
  "AllSecretsUseLatestProvider (analyzeSecretEncryption ''kmsprovider''
      [(''/registry/secrets/default/s1'', ''k8s:enc:kms:v2:kmsprovider1:x''),
       (''invalid-key'', ''plain'')] 1)
   \<and> \<not> AllSecretsUseLatestProvider (analyzeSecretEncryption ''kmsprovider''
      [(''/registry/secrets/default/s1'', ''k8s:enc:kms:v2:kmsprovider1:x''),
       (''/registry/secrets/ns/s2'', ''plain'')] 1)
   \<and> \<not> AllSecretsUseLatestProvider (analyzeSecretEncryption ''kmsprovider''
      ([(''/registry/secrets/default/s1'', ''k8s:enc:kms:v2:kmsprovider1:x''),
        (''/registry/secrets/ns/s2'', ''plain'')]
       @ [(''/registry/secrets/default/s3'', ''k8s:enc:kms:v2:kmsprovider1:y'')]) 1)"
proof -
  have a: "ParseEtcdObject ''/registry/secrets/default/s1'' ''k8s:enc:kms:v2:kmsprovider1:x''
             ''kmsprovider'' = (True, ''default/s1'', 1, None)" by code_simp
  have b: "ParseEtcdObject ''invalid-key'' ''plain'' ''kmsprovider''
             = (False, [], 0, Some (InvalidKeyFormat ''invalid-key''))" by code_simp
  have c: "ParseEtcdObject ''/registry/secrets/ns/s2'' ''plain'' ''kmsprovider''
             = (False, ''ns/s2'', 0, None)" by code_simp
  have first: "AllSecretsUseLatestProvider (analyzeSecretEncryption ''kmsprovider''
      [(''/registry/secrets/default/s1'', ''k8s:enc:kms:v2:kmsprovider1:x''),
       (''invalid-key'', ''plain'')] 1)"
    using analyze_all_match_iff [of "''kmsprovider''"
      "[(''/registry/secrets/default/s1'', ''k8s:enc:kms:v2:kmsprovider1:x''),
        (''invalid-key'', ''plain'')]" 1 "[]"]
    by (simp add: a b errOf_def seqOf_def)
  have second: "\<not> AllSecretsUseLatestProvider (analyzeSecretEncryption ''kmsprovider''
      [(''/registry/secrets/default/s1'', ''k8s:enc:kms:v2:kmsprovider1:x''),
       (''/registry/secrets/ns/s2'', ''plain'')] 1)"
    using analyze_all_match_iff [of "''kmsprovider''"
      "[(''/registry/secrets/default/s1'', ''k8s:enc:kms:v2:kmsprovider1:x''),
        (''/registry/secrets/ns/s2'', ''plain'')]" 1 "[]"]
    by (simp add: a c errOf_def seqOf_def)
  from second analyze_all_match_iff [of "''kmsprovider''"
      "[(''/registry/secrets/default/s1'', ''k8s:enc:kms:v2:kmsprovider1:x''),
        (''/registry/secrets/ns/s2'', ''plain'')]" 1
      "[(''/registry/secrets/default/s3'', ''k8s:enc:kms:v2:kmsprovider1:y'')]"]
  have third: "\<not> AllSecretsUseLatestProvider (analyzeSecretEncryption ''kmsprovider''
      ([(''/registry/secrets/default/s1'', ''k8s:enc:kms:v2:kmsprovider1:x''),
        (''/registry/secrets/ns/s2'', ''plain'')]
       @ [(''/registry/secrets/default/s3'', ''k8s:enc:kms:v2:kmsprovider1:y'')]) 1)"
    by blast
  from first second third show ?thesis by blast
qed

text \<open>
  Claim C6. A record whose classification returns an error is skipped: wherever it stands
  in the batch, the report is the report of the batch without it, so it enters neither
  list, leaves the flag alone, and the records after it are processed as usual.
\<close>

theorem analyze_skips_parse_errors:
  assumes "errOf (ParseEtcdObject k v p) \<noteq> None"
  shows "analyzeSecretEncryption p (before @ (k, v) # after) latest
           = analyzeSecretEncryption p (before @ after) latest"
  using assms
  by (simp add: analyzeSecretEncryption_def analyzeLoop_append analyzeStep_error)

theorem analyze_skips_parse_errors_witness:
  "errOf (ParseEtcdObject ''invalid-key'' ''plain'' ''kmsprovider'') \<noteq> None
   \<and> analyzeSecretEncryption ''kmsprovider''
        ([(''/registry/secrets/default/s1'', ''k8s:enc:kms:v2:kmsprovider1:x'')]
         @ (''invalid-key'', ''plain'') # [(''/registry/secrets/ns/s2'', ''plain'')]) 1
      = \<lparr>EncryptedSecrets = [''default/s1''], UnencryptedSecrets = [''ns/s2''],
          AllSecretsUseLatestProvider = False\<rparr>"
proof -
  have bad: "errOf (ParseEtcdObject ''invalid-key'' ''plain'' ''kmsprovider'') \<noteq> None"
    by code_simp
  have rest: "analyzeSecretEncryption ''kmsprovider''
        ([(''/registry/secrets/default/s1'', ''k8s:enc:kms:v2:kmsprovider1:x'')]
         @ [(''/registry/secrets/ns/s2'', ''plain'')]) 1
      = \<lparr>EncryptedSecrets = [''default/s1''], UnencryptedSecrets = [''ns/s2''],
          AllSecretsUseLatestProvider = False\<rparr>"
    by code_simp
  from analyze_skips_parse_errors [OF bad,
         of "[(''/registry/secrets/default/s1'', ''k8s:enc:kms:v2:kmsprovider1:x'')]"
            "[(''/registry/secrets/ns/s2'', ''plain'')]" 1] bad rest
  show ?thesis by simp
qed

section \<open>Properties of the provider-generation resolver\<close>




lemma FindStringSubmatch_here:
  assumes "HasPrefix s p" and "takeWhile isDigit (drop (length p) s) \<noteq> []"
  shows "FindStringSubmatch p s =
           [p @ takeWhile isDigit (drop (length p) s), takeWhile isDigit (drop (length p) s)]"
proof (cases s)
  case Nil
  with assms(2) show ?thesis by simp
next
  case (Cons c cs)
  with assms show ?thesis by (simp add: Let_def)
qed

lemma FindStringSubmatch_exact:
  assumes "ds \<noteq> []" and "list_all isDigit ds"
  shows "FindStringSubmatch p (p @ ds) = [p @ ds, ds]"
proof -
  have tw: "takeWhile isDigit ds = ds"
    using assms(2) by (simp add: list_all_iff takeWhile_eq_all_conv)
  have "HasPrefix (p @ ds) p" by (simp add: HasPrefix_def)
  from FindStringSubmatch_here [OF this] assms(1) tw show ?thesis by simp
qed








lemma providerGeneration_exact:
  assumes "KMS q = Some kms" and "Name kms = p @ ds" and "ds \<noteq> []" and "list_all isDigit ds"
  shows "providerGeneration p q = (if decimal ds \<le> maxInt then Some (decimal ds) else None)"
  using assms by (simp add: providerGeneration_def FindStringSubmatch_exact)







section \<open>Properties of the recorder\<close>

lemma createConfigMap_data:
  assumes "createConfigMap ok ns ev uv allEnc latest = Inr cm"
  shows "\<exists>data. Data cm = Some data
           \<and> data encryptedSecretsKey = Some ev
           \<and> data unencryptedSecretsKey = Some uv
           \<and> data encryptedByLatestProviderKey
               = (if allEnc then Some (formatBool latest) else None)"
  using assms
  by (auto simp: createConfigMap_def Let_def encryptedSecretsKey_def unencryptedSecretsKey_def
        encryptedByLatestProviderKey_def split: if_splits)

lemma updateConfigMap_data:
  assumes "updateConfigMap ok old ev uv allEnc latest = Inr cm"
  shows "\<exists>data. Data cm = Some data
           \<and> data encryptedSecretsKey = Some ev
           \<and> data unencryptedSecretsKey = Some uv
           \<and> data encryptedByLatestProviderKey
               = (if allEnc then Some (formatBool latest) else None)"
  using assms
  by (auto simp: updateConfigMap_def Let_def encryptedSecretsKey_def unencryptedSecretsKey_def
        encryptedByLatestProviderKey_def split: if_splits option.splits)

lemma Record_data:
  assumes "Record got ok ns enc unenc latest = Inr cm"
  shows "\<exists>data. Data cm = Some data
           \<and> data encryptedSecretsKey = Some (fst (formatSecretLists enc unenc))
           \<and> data unencryptedSecretsKey = Some (snd (formatSecretLists enc unenc))
           \<and> data encryptedByLatestProviderKey
               = (if unenc = [] then Some (formatBool latest) else None)"
proof (cases got)
  case (GetFound old)
  with assms have "updateConfigMap ok old (fst (formatSecretLists enc unenc))
      (snd (formatSecretLists enc unenc)) (unenc = []) latest = Inr cm"
    by (simp add: Record_def Let_def split: prod.splits)
  from updateConfigMap_data [OF this] show ?thesis .
next
  case GetNotFound
  with assms have "createConfigMap ok ns (fst (formatSecretLists enc unenc))
      (snd (formatSecretLists enc unenc)) (unenc = []) latest = Inr cm"
    by (simp add: Record_def Let_def split: prod.splits)
  from createConfigMap_data [OF this] show ?thesis .
next
  case GetOtherError
  with assms show ?thesis by (simp add: Record_def Let_def split: prod.splits)
qed

text \<open>
  Claim C8. In the report that a successful \<open>Record\<close> has stored, created or updated,
  the field \<open>ENCRYPTED_BY_LATEST_SEQ\<close> is present exactly when the list of unencrypted
  secrets of the batch is empty, and then it holds the flag printed as \<open>true\<close> or
  \<open>false\<close>; with any unencrypted secret in the batch the stored data has no such field.
\<close>

theorem Record_latest_field_only_when_all_encrypted:
  assumes "Record got ok ns enc unenc latest = Inr cm"
  shows "\<exists>data. Data cm = Some data
           \<and> (encryptedByLatestProviderKey \<in> dom data \<longleftrightarrow> unenc = [])
           \<and> (unenc \<noteq> [] \<longrightarrow> data encryptedByLatestProviderKey = None)
           \<and> (unenc = [] \<longrightarrow> data encryptedByLatestProviderKey = Some (formatBool latest))"
  using Record_data [OF assms] by (auto simp: dom_def)

theorem Record_latest_field_only_when_all_encrypted_witness:
  "(case Record GetNotFound True ''kube-system'' [''default/s1''] [] True of
      Inl e \<Rightarrow> False
    | Inr cm \<Rightarrow> (case Data cm of
                   None \<Rightarrow> False
                 | Some data \<Rightarrow> data encryptedByLatestProviderKey = Some ''true''))
   \<and> (case Record GetNotFound True ''kube-system'' [''default/s1''] [''ns/s2''] False of
      Inl e \<Rightarrow> False
    | Inr cm \<Rightarrow> (case Data cm of
                   None \<Rightarrow> False
                 | Some data \<Rightarrow> data encryptedByLatestProviderKey = None))"
proof -
  obtain cm1 where r1: "Record GetNotFound True ''kube-system'' [''default/s1''] [] True = Inr cm1"
    by (simp add: Record_def createConfigMap_def formatSecretLists_def Let_def)
  obtain cm2 where
    r2: "Record GetNotFound True ''kube-system'' [''default/s1''] [''ns/s2''] False = Inr cm2"
    by (simp add: Record_def createConfigMap_def formatSecretLists_def Let_def)
  from Record_latest_field_only_when_all_encrypted [OF r1]
  have first: "case Data cm1 of None \<Rightarrow> False
               | Some data \<Rightarrow> data encryptedByLatestProviderKey = Some ''true''"
    by (auto simp: formatBool_def)
  from Record_latest_field_only_when_all_encrypted [OF r2]
  have second: "case Data cm2 of None \<Rightarrow> False
                | Some data \<Rightarrow> data encryptedByLatestProviderKey = None"
    by auto
  from first second show ?thesis by (simp add: r1 r2)
qed

text \<open>
  Claim C10. When \<open>Record\<close> finds a stored report and succeeds, the stored data holds
  the new \<open>ENCRYPTED\<close> and \<open>UNENCRYPTED\<close> texts of \<open>formatSecretLists\<close>, whatever it
  held before, and with a non-empty list of unencrypted secrets it has no
  \<open>ENCRYPTED_BY_LATEST_SEQ\<close> field, also when the report of an earlier run had one.
\<close>

theorem Record_update_overwrites_and_deletes:
  assumes "Record (GetFound old) ok ns enc unenc latest = Inr cm"
  shows "\<exists>data. Data cm = Some data
           \<and> data encryptedSecretsKey = Some (fst (formatSecretLists enc unenc))
           \<and> data unencryptedSecretsKey = Some (snd (formatSecretLists enc unenc))
           \<and> (unenc \<noteq> [] \<longrightarrow> data encryptedByLatestProviderKey = None)"
  using Record_data [OF assms] by auto

theorem Record_update_overwrites_and_deletes_witness:
  "(case Record (GetFound \<lparr>ObjectName = ''kms-reporter'', Namespace = ''kube-system'',
                           Data = Some [''ENCRYPTED'' \<mapsto> ''ALL_SECRETS'', ''UNENCRYPTED'' \<mapsto> [],
                                        ''ENCRYPTED_BY_LATEST_SEQ'' \<mapsto> ''true'']\<rparr>)
           True ''kube-system'' [''default/s1'', ''default/s3''] [''ns/s2''] False of
      Inl e \<Rightarrow> False
    | Inr cm \<Rightarrow> (case Data cm of
                   None \<Rightarrow> False
                 | Some data \<Rightarrow> data ''ENCRYPTED'' = Some ''default/s1,default/s3''
                     \<and> data ''UNENCRYPTED'' = Some ''ns/s2''
                     \<and> data ''ENCRYPTED_BY_LATEST_SEQ'' = None))"
proof -
  let ?old = "\<lparr>ObjectName = ''kms-reporter'', Namespace = ''kube-system'',
               Data = Some [''ENCRYPTED'' \<mapsto> ''ALL_SECRETS'', ''UNENCRYPTED'' \<mapsto> [],
                            ''ENCRYPTED_BY_LATEST_SEQ'' \<mapsto> ''true'']\<rparr>"
  obtain cm where r: "Record (GetFound ?old) True ''kube-system''
                        [''default/s1'', ''default/s3''] [''ns/s2''] False = Inr cm"
    by (simp add: Record_def updateConfigMap_def formatSecretLists_def Let_def)
  have fmt: "formatSecretLists [''default/s1'', ''default/s3''] [''ns/s2'']
               = (''default/s1,default/s3'', ''ns/s2'')"
    by code_simp
  from Record_update_overwrites_and_deletes [OF r]
  have "case Data cm of None \<Rightarrow> False
        | Some data \<Rightarrow> data ''ENCRYPTED'' = Some ''default/s1,default/s3''
            \<and> data ''UNENCRYPTED'' = Some ''ns/s2''
            \<and> data ''ENCRYPTED_BY_LATEST_SEQ'' = None"
    by (auto simp: fmt encryptedSecretsKey_def unencryptedSecretsKey_def
          encryptedByLatestProviderKey_def)
  then show ?thesis by (simp add: r)
qed

end
